theory Spec2Isabelle
  imports Main "HOL-Library.AList"
begin

section \<open>Values and errors\<close>

text \<open>
  The exceptions that the modelled code can raise.  \<open>Exit n\<close> is typer's \<open>Exit\<close> with
  exit code \<open>n\<close> (\<open>raise Exit()\<close> is \<open>Exit 0\<close>).  \<open>JSONDecodeError\<close> carries the document
  that failed to decode, as Python's exception does; \<open>KeyError\<close> carries the missing key.
\<close>

datatype error =
    Exit nat
  | JSONDecodeError string
  | TypeError
  | AttributeError
  | KeyError string
  | ValueError
  | IndexError

text \<open>A decoded JSON document.  A JSON object is a Python dict, kept in insertion order.\<close>

datatype json =
    JNull
  | JBool bool
  | JNum int
  | JStr string
  | JArr "json list"
  | JObj "(string \<times> json) list"

text \<open>Python truthiness of a nullable integer column: \<open>None\<close> and \<open>0\<close> are false.\<close>

definition truthy_int :: "int option \<Rightarrow> bool" where
  "truthy_int x = (case x of None \<Rightarrow> False | Some n \<Rightarrow> n \<noteq> 0)"

text \<open>
  \<open>s.split(sep)\<close> for a one-character separator: every occurrence of the separator
  cuts, so the empty string gives one empty field.
\<close>

fun py_split :: "char \<Rightarrow> string \<Rightarrow> string list" where
  "py_split sep [] = [[]]"
| "py_split sep (c # cs) =
     (if c = sep then [] # py_split sep cs
      else (case py_split sep cs of
              [] \<Rightarrow> [[c]]
            | w # ws \<Rightarrow> (c # w) # ws))"

text \<open>\<open>x in xs\<close> for a nullable string \<open>x\<close> and a list of strings: \<open>None\<close> is never found.\<close>

definition opt_in :: "string option \<Rightarrow> string list \<Rightarrow> bool" where
  "opt_in x xs = (case x of None \<Rightarrow> False | Some s \<Rightarrow> s \<in> set xs)"

section \<open>Records of \<open>sigexport.models\<close> and rows of the store\<close>

record Contact =
  contact_id :: string
  serviceId :: "string option"
  name :: "string option"
  number :: "string option"
  profile_name :: "string option"
  members :: "string list"
  is_group :: bool

record RawMessage =
  conversation_id :: string
  msg_id :: string
  msg_type :: "string option"
  body :: "string option"
  source :: "string option"
  timestamp :: "int option"
  sent_at :: "int option"
  server_timestamp :: "int option"
  has_attachments :: "int option"
  attachments :: json
  read_status :: "int option"
  seen_status :: "int option"
  call_history :: json
  reactions :: json
  sticker :: json
  quote :: json

text \<open>Python dicts keep insertion order: association lists, written with \<open>AList.update\<close>.\<close>

type_synonym Contacts = "(string \<times> Contact) list"

type_synonym Convos = "(string \<times> RawMessage list) list"

text \<open>
  One row of \<open>SELECT type, id, serviceId, e164, name, profileName, members FROM
  conversations\<close>, fields in the order of the query (\<open>result[0]\<close> .. \<open>result[6]\<close>).
\<close>

record conversation_row =
  row_type :: "string option"
  row_id :: string
  row_serviceId :: "string option"
  row_e164 :: "string option"
  row_name :: "string option"
  row_profileName :: "string option"
  row_members :: "string option"

text \<open>
  One row of the query on \<open>messages\<close> (\<open>result[0]\<close> .. \<open>result[12]\<close>): conversationId,
  type, json, id, body, sourceServiceId, timestamp, sent_at, serverTimestamp,
  hasAttachments, readStatus, seenStatus, expireTimer.
\<close>

record message_row =
  m_conversationId :: "string option"
  m_type :: "string option"
  m_json :: "string option"
  m_id :: string
  m_body :: "string option"
  m_sourceServiceId :: "string option"
  m_timestamp :: "int option"
  m_sent_at :: "int option"
  m_serverTimestamp :: "int option"
  m_hasAttachments :: "int option"
  m_readStatus :: "int option"
  m_seenStatus :: "int option"
  m_expireTimer :: "int option"

text \<open>
  The decrypted store, as the two row streams its queries return (the messages already
  ordered by \<open>sent_at\<close>).  The store is taken to open and to answer both queries.
\<close>

record store =
  conversation_rows :: "conversation_row list"
  message_rows :: "message_row list"

section \<open>\<open>sigexport.data.fetch_data\<close>\<close>

subsection \<open>The key and the name filter\<close>

text \<open>
  Lines 25 to 30: without a key, \<open>crypto.get_key(source_dir, password)\<close> is called, and any
  exception of it becomes \<open>Exit(1)\<close>.  \<open>get_key\<close> stands for that call (\<open>Inl\<close> when it
  raises).
\<close>

definition resolve_key ::
  "(string option \<Rightarrow> error + string) \<Rightarrow> string option \<Rightarrow> string option \<Rightarrow> error + string" where
  "resolve_key get_key password key =
     (case key of
        None \<Rightarrow> (case get_key password of Inl e \<Rightarrow> Inl (Exit 1) | Inr k \<Rightarrow> Inr k)
      | Some k \<Rightarrow> Inr k)"

text \<open>\<open>chats_list = chats.split(",") if len(chats) > 0 else []\<close>\<close>

definition chats_list_of :: "string \<Rightarrow> string list" where
  "chats_list_of chats = (if length chats > 0 then py_split CHR '','' chats else [])"

subsection \<open>The statements executed on the cursor\<close>

definition pragma_key :: "string \<Rightarrow> string" where
  "pragma_key k = ''PRAGMA KEY = '' @ [CHR 0x22] @ ''x'' @ [CHR 0x27] @ k @ [CHR 0x27, CHR 0x22]"

definition pragma_cipher_page_size :: string where
  "pragma_cipher_page_size = ''PRAGMA cipher_page_size = 4096''"

definition pragma_kdf_iter :: string where
  "pragma_kdf_iter = ''PRAGMA kdf_iter = 64000''"

definition pragma_cipher_hmac_algorithm :: string where
  "pragma_cipher_hmac_algorithm = ''PRAGMA cipher_hmac_algorithm = HMAC_SHA512''"

definition pragma_cipher_kdf_algorithm :: string where
  "pragma_cipher_kdf_algorithm = ''PRAGMA cipher_kdf_algorithm = PBKDF2_HMAC_SHA512''"

definition query_conversations :: string where
  "query_conversations =
     ''SELECT type, id, serviceId, e164, name, profileName, members FROM conversations''"

definition query_messages :: string where
  "query_messages =
     ''SELECT conversationId, type, json, id, body, sourceServiceId, timestamp, sent_at, serverTimestamp, hasAttachments, readStatus, seenStatus, expireTimer FROM messages ORDER BY sent_at''"

text \<open>\<open>c.execute(q)\<close>: the cursor is modelled by the list of statements it has executed.\<close>

definition execute :: "string \<Rightarrow> string list \<Rightarrow> string list" where
  "execute q cur = cur @ [q]"

subsection \<open>The loop over the conversation rows\<close>

definition row_contact :: "conversation_row \<Rightarrow> Contact" where
  "row_contact result =
     (let members = (case row_members result of
                       None \<Rightarrow> []
                     | Some s \<Rightarrow> if s \<noteq> [] then py_split CHR '' '' s else []);
          is_group = (row_type result = Some ''group'');
          c = \<lparr> contact_id = row_id result,
                serviceId = row_serviceId result,
                name = row_name result,
                number = row_e164 result,
                profile_name = row_profileName result,
                members = members,
                is_group = is_group \<rparr>
      in if name c = None then c\<lparr> name := profile_name c \<rparr> else c)"

definition chat_selected :: "string \<Rightarrow> string list \<Rightarrow> conversation_row \<Rightarrow> bool" where
  "chat_selected chats chats_list result =
     (chats = [] \<or> (opt_in (row_name result) chats_list \<or> opt_in (row_profileName result) chats_list))"

definition load_conversation ::
  "string \<Rightarrow> string list \<Rightarrow> conversation_row \<Rightarrow> Contacts \<times> Convos \<Rightarrow> Contacts \<times> Convos" where
  "load_conversation chats chats_list result st =
     (let cid = row_id result;
          contacts = AList.update cid (row_contact result) (fst st);
          convos = (if chat_selected chats chats_list result
                    then AList.update cid [] (snd st) else snd st)
      in (contacts, convos))"

fun load_conversations ::
  "string \<Rightarrow> string list \<Rightarrow> conversation_row list \<Rightarrow> Contacts \<times> Convos \<Rightarrow> Contacts \<times> Convos" where
  "load_conversations chats chats_list [] st = st"
| "load_conversations chats chats_list (result # rest) st =
     load_conversations chats chats_list rest (load_conversation chats chats_list result st)"

subsection \<open>The loop over the message rows\<close>

text \<open>
  \<open>json.loads(result[2])\<close>.  The decoder is the standard library's, a parameter \<open>loads\<close>
  of the model; on \<open>None\<close> Python raises \<open>TypeError\<close> before decoding.
\<close>

definition json_loads :: "(string \<Rightarrow> error + json) \<Rightarrow> string option \<Rightarrow> error + json" where
  "json_loads loads x = (case x of None \<Rightarrow> Inl TypeError | Some s \<Rightarrow> loads s)"

text \<open>\<open>d.get(k, default)\<close> on a decoded object.\<close>

definition dict_get :: "(string \<times> json) list \<Rightarrow> string \<Rightarrow> json \<Rightarrow> json" where
  "dict_get d k dflt = (case map_of d k of None \<Rightarrow> dflt | Some v \<Rightarrow> v)"

text \<open>
  The construction of \<open>models.RawMessage\<close>; \<open>jsonLoaded.get\<close> exists only when the decoded
  document is an object, any other document raises \<open>AttributeError\<close>.
\<close>

definition raw_message :: "string \<Rightarrow> message_row \<Rightarrow> json \<Rightarrow> error + RawMessage" where
  "raw_message cid result jsonLoaded =
     (case jsonLoaded of
        JObj d \<Rightarrow>
          Inr \<lparr> conversation_id = cid,
                msg_id = m_id result,
                msg_type = m_type result,
                body = m_body result,
                source = m_sourceServiceId result,
                timestamp = m_timestamp result,
                sent_at = m_sent_at result,
                server_timestamp = m_serverTimestamp result,
                has_attachments = m_hasAttachments result,
                attachments = dict_get d ''attachments'' (JArr []),
                read_status = m_readStatus result,
                seen_status = m_seenStatus result,
                call_history = dict_get d ''call_history'' JNull,
                reactions = dict_get d ''reactions'' (JArr []),
                sticker = dict_get d ''sticker'' JNull,
                quote = dict_get d ''quote'' JNull \<rparr>
      | _ \<Rightarrow> Inl AttributeError)"

definition excluded_type :: "string option \<Rightarrow> bool" where
  "excluded_type t = (t = Some ''keychange'' \<or> t = Some ''profile-change'' \<or> t = None)"

text \<open>\<open>convos[cid].append(con)\<close>, for a key that is present.\<close>

definition append_message :: "string \<Rightarrow> RawMessage \<Rightarrow> Convos \<Rightarrow> Convos" where
  "append_message cid con convos =
     (case map_of convos cid of
        None \<Rightarrow> convos
      | Some ms \<Rightarrow> AList.update cid (ms @ [con]) convos)"

text \<open>One pass of the body of the loop over the message rows.\<close>

definition load_message ::
  "(string \<Rightarrow> error + json) \<Rightarrow> bool \<Rightarrow> message_row \<Rightarrow> Convos \<Rightarrow> error + Convos" where
  "load_message loads include_disappearing result convos =
     (case json_loads loads (m_json result) of
        Inl e \<Rightarrow> Inl e
      | Inr jsonLoaded \<Rightarrow>
          (case m_conversationId result of
             None \<Rightarrow> Inr convos
           | Some cid \<Rightarrow>
               if cid \<noteq> [] \<and> cid \<in> fst ` set convos then
                 if excluded_type (m_type result) then Inr convos
                 else if truthy_int (m_expireTimer result) \<and> \<not> include_disappearing
                   then Inr convos
                 else (case raw_message cid result jsonLoaded of
                         Inl e \<Rightarrow> Inl e
                       | Inr con \<Rightarrow> Inr (append_message cid con convos))
               else Inr convos))"

fun load_messages ::
  "(string \<Rightarrow> error + json) \<Rightarrow> bool \<Rightarrow> message_row list \<Rightarrow> Convos \<Rightarrow> error + Convos" where
  "load_messages loads include_disappearing [] convos = Inr convos"
| "load_messages loads include_disappearing (result # rest) convos =
     (case load_message loads include_disappearing result convos of
        Inl e \<Rightarrow> Inl e
      | Inr convos' \<Rightarrow> load_messages loads include_disappearing rest convos')"

subsection \<open>Pruning and the whole function\<close>

text \<open>
  \<open>if not include_empty: convos = {key: val for key, val in convos.items() if len(val) > 0}\<close>
\<close>

definition prune :: "bool \<Rightarrow> Convos \<Rightarrow> Convos" where
  "prune include_empty convos =
     (if include_empty then convos else filter (\<lambda>(key, val). length val > 0) convos)"

text \<open>
  \<open>fetch_data\<close>.  \<open>loads\<close> stands for \<open>json.loads\<close>, \<open>db\<close> for the store under
  \<open>source_dir\<close>.  The result pairs the statements executed on the cursor with the value
  returned or the exception raised.
\<close>

definition fetch_data ::
  "(string option \<Rightarrow> error + string) \<Rightarrow> (string \<Rightarrow> error + json) \<Rightarrow> store \<Rightarrow>
   string option \<Rightarrow> string option \<Rightarrow> string \<Rightarrow> bool \<Rightarrow> bool \<Rightarrow>
   string list \<times> (error + Convos \<times> Contacts)" where
  "fetch_data get_key loads db password key chats include_empty include_disappearing =
     (case resolve_key get_key password key of
        Inl e \<Rightarrow> ([], Inl e)
      | Inr k \<Rightarrow>
          (let chats_list = chats_list_of chats;
               c = execute (pragma_key k) [];
               c = execute pragma_cipher_page_size c;
               c = execute pragma_kdf_iter c;
               c = execute pragma_cipher_hmac_algorithm c;
               c = execute pragma_cipher_kdf_algorithm c;
               c = execute query_conversations c;
               st = load_conversations chats chats_list (conversation_rows db) ([], []);
               c = execute query_messages c
           in case load_messages loads include_disappearing (message_rows db) (snd st) of
                Inl e \<Rightarrow> (c, Inl e)
              | Inr convos \<Rightarrow> (c, Inr (prune include_empty convos, fst st))))"

section \<open>\<open>sigexport.main.export_channel_metadata\<close>\<close>

text \<open>The entries of \<open>group_meta["members"]\<close>, \<open>group_meta\<close> itself and the rows of \<open>flat_meta\<close>.\<close>

record member_meta =
  member_name :: "string option"
  display_name :: "string option"
  member_number :: "string option"
  other_groups :: "string option list"

record group_meta =
  meta_name :: "string option"
  exported_by :: "string option"
  exported_on :: string
  meta_members :: "member_meta list"

record flat_meta_row =
  group_name :: "string option"
  flat_exported_by :: "string option"
  flat_exported_on :: string
  num_shared_groups :: nat
  flat_name :: "string option"
  flat_display_name :: "string option"
  flat_number :: "string option"
  flat_other_groups :: "string option list"

text \<open>
  What the function does to the file system, in order: a path is the list of its
  components below nothing (\<open>dest / c.name / "meta.json"\<close> is \<open>[dest, name, ''meta.json'']\<close>).
\<close>

datatype fs_effect =
    MakeDirs "string list"
  | WriteMetaJson "string list" group_meta
  | WriteMembersCsv "string list" "flat_meta_row list"

text \<open>\<open>{c.serviceId: c for c in contacts.values()}\<close>: a later contact replaces an earlier one.\<close>

definition contacts_by_serviceId :: "Contacts \<Rightarrow> (string option \<times> Contact) list" where
  "contacts_by_serviceId contacts =
     fold (\<lambda>c. AList.update (serviceId c) c) (map snd contacts) []"

text \<open>\<open>[g for g in contacts.values() if g.is_group]\<close>\<close>

definition all_groups_of :: "Contacts \<Rightarrow> Contact list" where
  "all_groups_of contacts = filter is_group (map snd contacts)"

text \<open>\<open>[contacts_by_serviceId[m] for m in c.members]\<close>: a missing key raises \<open>KeyError\<close>.\<close>

fun resolve_members :: "(string option \<times> Contact) list \<Rightarrow> string list \<Rightarrow> error + Contact list" where
  "resolve_members idx [] = Inr []"
| "resolve_members idx (m # ms) =
     (case map_of idx (Some m) of
        None \<Rightarrow> Inl (KeyError m)
      | Some c \<Rightarrow>
          (case resolve_members idx ms of
             Inl e \<Rightarrow> Inl e
           | Inr cs \<Rightarrow> Inr (c # cs)))"

text \<open>
  The comprehension under \<open>"other_groups"\<close>:
  \<open>[g.name for g in all_groups if member.serviceId in g.members
     if key != g.id and member.serviceId != owner.serviceId]\<close>
\<close>

definition other_groups_of :: "string \<Rightarrow> Contact list \<Rightarrow> Contact \<Rightarrow> Contact \<Rightarrow> string option list" where
  "other_groups_of key all_groups owner member =
     map name
       (filter (\<lambda>g. opt_in (serviceId member) (members g) \<and>
                    (key \<noteq> contact_id g \<and> serviceId member \<noteq> serviceId owner))
          all_groups)"

definition member_entry :: "string \<Rightarrow> Contact list \<Rightarrow> Contact \<Rightarrow> Contact \<Rightarrow> member_meta" where
  "member_entry key all_groups owner member =
     \<lparr> member_name = name member,
       display_name = profile_name member,
       member_number = number member,
       other_groups = other_groups_of key all_groups owner member \<rparr>"

text \<open>\<open>exported_on\<close> is \<open>datetime.now().isoformat()\<close>, a parameter \<open>now\<close> of the model.\<close>

definition make_group_meta ::
  "string \<Rightarrow> Contact \<Rightarrow> Contact list \<Rightarrow> Contact list \<Rightarrow> Contact \<Rightarrow> string \<Rightarrow> group_meta" where
  "make_group_meta key c ms all_groups owner now =
     \<lparr> meta_name = name c,
       exported_by = profile_name owner,
       exported_on = now,
       meta_members = map (member_entry key all_groups owner) ms \<rparr>"

definition flat_row :: "group_meta \<Rightarrow> member_meta \<Rightarrow> flat_meta_row" where
  "flat_row gm m =
     \<lparr> group_name = meta_name gm,
       flat_exported_by = exported_by gm,
       flat_exported_on = exported_on gm,
       num_shared_groups = length (other_groups m),
       flat_name = member_name m,
       flat_display_name = display_name m,
       flat_number = member_number m,
       flat_other_groups = other_groups m \<rparr>"

definition make_flat_meta :: "group_meta \<Rightarrow> flat_meta_row list" where
  "make_flat_meta gm = map (flat_row gm) (meta_members gm)"

text \<open>\<open>c.name not in include_chats\<close>, when a list is given.\<close>

definition restricted_out :: "string list option \<Rightarrow> Contact \<Rightarrow> bool" where
  "restricted_out include_chats c =
     (case include_chats of None \<Rightarrow> False | Some l \<Rightarrow> \<not> opt_in (name c) l)"

text \<open>
  One pass of the body of the loop over \<open>contacts.items()\<close>: the effects of the pass and
  the exception it raises, if any.  \<open>dest / c.name\<close> raises \<open>TypeError\<close> when either is
  \<open>None\<close>; \<open>flat_meta[0]\<close> raises \<open>IndexError\<close> for a group without members, after
  \<open>meta.json\<close> is written and \<open>members.csv\<close> is opened for writing.  \<open>now key\<close> is the
  clock as read in the pass for \<open>key\<close>.
\<close>

definition export_group ::
  "string option \<Rightarrow> (string option \<times> Contact) list \<Rightarrow> Contact list \<Rightarrow> Contact \<Rightarrow>
   string list option \<Rightarrow> (string \<Rightarrow> string) \<Rightarrow> string \<times> Contact \<Rightarrow> fs_effect list \<times> error option" where
  "export_group dest by_serviceId all_groups owner include_chats now kc =
     (let key = fst kc; c = snd kc in
      if \<not> is_group c then ([], None)
      else if restricted_out include_chats c then ([], None)
      else (case dest of
              None \<Rightarrow> ([], Some TypeError)
            | Some d \<Rightarrow>
               (case name c of
                  None \<Rightarrow> ([], Some TypeError)
                | Some n \<Rightarrow>
                   (case resolve_members by_serviceId (members c) of
                      Inl e \<Rightarrow> ([MakeDirs [d, n]], Some e)
                    | Inr ms \<Rightarrow>
                       (let gm = make_group_meta key c ms all_groups owner (now key);
                            flat_meta = make_flat_meta gm;
                            fx = [MakeDirs [d, n], WriteMetaJson [d, n, ''meta.json''] gm]
                        in if flat_meta = []
                           then (fx @ [WriteMembersCsv [d, n, ''members.csv''] []], Some IndexError)
                           else (fx @ [WriteMembersCsv [d, n, ''members.csv''] flat_meta], None))))))"

text \<open>The loop: an exception ends it, the effects of the earlier passes stay.\<close>

fun export_loop ::
  "(string \<times> Contact \<Rightarrow> fs_effect list \<times> error option) \<Rightarrow> Contacts \<Rightarrow> fs_effect list \<times> error option" where
  "export_loop pass [] = ([], None)"
| "export_loop pass (kc # rest) =
     (case pass kc of
        (fx, Some e) \<Rightarrow> (fx, Some e)
      | (fx, None) \<Rightarrow> (fx @ fst (export_loop pass rest), snd (export_loop pass rest)))"

definition export_channel_metadata ::
  "string option \<Rightarrow> Contacts \<Rightarrow> Contact \<Rightarrow> string list option \<Rightarrow> (string \<Rightarrow> string) \<Rightarrow>
   fs_effect list \<times> error option" where
  "export_channel_metadata dest contacts owner include_chats now =
     export_loop
       (export_group dest (contacts_by_serviceId contacts) (all_groups_of contacts) owner
          include_chats now)
       contacts"

section \<open>\<open>sigexport.main.main\<close>\<close>

text \<open>
  Lines 96 to 98: \<open>export_channel_metadata(dest, contacts, owner, chats.split(","))\<close>
  followed by \<open>raise Exit()\<close>.
\<close>

definition network_only_export ::
  "string option \<Rightarrow> Contacts \<Rightarrow> Contact \<Rightarrow> string \<Rightarrow> (string \<Rightarrow> string) \<Rightarrow> fs_effect list \<times> error" where
  "network_only_export dest contacts owner chats now =
     (case export_channel_metadata dest contacts owner (Some (py_split CHR '','' chats)) now of
        (fx, Some e) \<Rightarrow> (fx, e)
      | (fx, None) \<Rightarrow> (fx, Exit 0))"

text \<open>
  The values that \<open>main\<close> binds by tuple unpacking are dynamically typed; \<open>a, b, c = t\<close>
  raises \<open>ValueError\<close> unless \<open>t\<close> has exactly three components.
\<close>

datatype pyval =
    ConvosVal Convos
  | ContactsVal Contacts
  | ContactVal Contact

definition unpack3 :: "pyval list \<Rightarrow> error + pyval \<times> pyval \<times> pyval" where
  "unpack3 t = (case t of [a, b, c] \<Rightarrow> Inr (a, b, c) | _ \<Rightarrow> Inl ValueError)"

record main_args =
  arg_dest :: "string option"
  arg_password :: "string option"
  arg_key :: "string option"
  arg_chats :: string
  arg_list_chats :: bool
  arg_include_empty :: bool
  arg_include_disappearing :: bool
  arg_network_only :: bool

text \<open>
  \<open>main\<close> up to the end of the \<open>network_only\<close> branch.  \<open>config_is_file\<close> is the test on
  \<open>config.json\<close>; \<open>rest\<close> stands for everything after line 98 (listing, rendering, merging:
  other modules).  The result is the effects on the file system and how the call ends.
\<close>

definition main ::
  "(string option \<Rightarrow> error + string) \<Rightarrow> (string \<Rightarrow> error + json) \<Rightarrow> bool \<Rightarrow> store \<Rightarrow>
   (string \<Rightarrow> string) \<Rightarrow> (pyval \<Rightarrow> pyval \<Rightarrow> pyval \<Rightarrow> fs_effect list \<times> error) \<Rightarrow>
   main_args \<Rightarrow> fs_effect list \<times> error" where
  "main get_key loads config_is_file db now rest a =
     (if \<not> (arg_dest a \<noteq> None \<or> arg_list_chats a) then ([], Exit 1)
      else if \<not> config_is_file then ([], Exit 1)
      else (case snd (fetch_data get_key loads db (arg_password a) (arg_key a) (arg_chats a)
                        (arg_include_empty a) (arg_include_disappearing a)) of
              Inl e \<Rightarrow> ([], e)
            | Inr (convos, contacts) \<Rightarrow>
                (case unpack3 [ConvosVal convos, ContactsVal contacts] of
                   Inl e \<Rightarrow> ([], e)
                 | Inr (convos, contacts, owner) \<Rightarrow>
                     if arg_network_only a then
                       (case (contacts, owner) of
                          (ContactsVal cs, ContactVal ow) \<Rightarrow>
                            network_only_export (arg_dest a) cs ow (arg_chats a) now
                        | _ \<Rightarrow> ([], AttributeError))
                     else rest convos contacts owner)))"

section \<open>Concrete inputs\<close>

text \<open>
  Inputs on which the functions above are evaluated below.  \<open>sample_loads\<close> decodes two
  documents and rejects every other one, with the document in the exception.
\<close>

definition sample_loads :: "string \<Rightarrow> error + json" where
  "sample_loads s =
     (if s = ''{}'' then Inr (JObj [])
      else if s = ''[]'' then Inr (JArr [])
      else Inl (JSONDecodeError s))"

definition sample_get_key :: "string option \<Rightarrow> error + string" where
  "sample_get_key password = Inr ''00ff''"

definition sample_now :: "string \<Rightarrow> string" where
  "sample_now key = ''2024-01-01T00:00:00''"

definition sample_rest :: "pyval \<Rightarrow> pyval \<Rightarrow> pyval \<Rightarrow> fs_effect list \<times> error" where
  "sample_rest convos contacts owner = ([], Exit 0)"

definition person :: "string \<Rightarrow> string \<Rightarrow> string \<Rightarrow> Contact" where
  "person i s n =
     \<lparr> contact_id = i, serviceId = Some s, name = Some n, number = None,
       profile_name = Some n, members = [], is_group = False \<rparr>"

definition group :: "string \<Rightarrow> string \<Rightarrow> string list \<Rightarrow> Contact" where
  "group i n ms =
     \<lparr> contact_id = i, serviceId = None, name = Some n, number = None,
       profile_name = None, members = ms, is_group = True \<rparr>"

text \<open>
  The scenario of the specification: owner \<open>O\<close>, persons \<open>A\<close>, \<open>B\<close>, \<open>C\<close>, and the groups
  \<open>G1 = {O, A, B}\<close> and \<open>G2 = {A, C, O}\<close>.
\<close>

definition owner_O :: Contact where
  "owner_O = person ''o'' ''sO'' ''O''"

definition scenario_contacts :: Contacts where
  "scenario_contacts =
     [(''o'', owner_O),
      (''a'', person ''a'' ''sA'' ''A''),
      (''b'', person ''b'' ''sB'' ''B''),
      (''c'', person ''c'' ''sC'' ''C''),
      (''g1'', group ''g1'' ''G1'' [''sO'', ''sA'', ''sB'']),
      (''g2'', group ''g2'' ''G2'' [''sA'', ''sC'', ''sO''])]"

text \<open>
  The conversation rows of a store that holds the scenario: \<open>fetch_data\<close> normalizes
  them to the contacts above.
\<close>

definition person_row :: "string \<Rightarrow> string \<Rightarrow> string \<Rightarrow> conversation_row" where
  "person_row i s n =
     \<lparr> row_type = Some ''private'', row_id = i, row_serviceId = Some s, row_e164 = None,
       row_name = Some n, row_profileName = Some n, row_members = None \<rparr>"

definition group_row :: "string \<Rightarrow> string \<Rightarrow> string \<Rightarrow> conversation_row" where
  "group_row i n ms =
     \<lparr> row_type = Some ''group'', row_id = i, row_serviceId = None, row_e164 = None,
       row_name = Some n, row_profileName = None, row_members = Some ms \<rparr>"

definition scenario_store :: store where
  "scenario_store =
     \<lparr> conversation_rows =
         [person_row ''o'' ''sO'' ''O'',
          person_row ''a'' ''sA'' ''A'',
          person_row ''b'' ''sB'' ''B'',
          person_row ''c'' ''sC'' ''C'',
          group_row ''g1'' ''G1'' ''sO sA sB'',
          group_row ''g2'' ''G2'' ''sA sC sO''],
       message_rows = [] \<rparr>"

text \<open>The \<open>meta.json\<close> documents and the \<open>members.csv\<close> tables among a list of effects.\<close>

definition written_meta :: "fs_effect list \<Rightarrow> group_meta list" where
  "written_meta fx = concat (map (\<lambda>f. case f of WriteMetaJson p gm \<Rightarrow> [gm] | _ \<Rightarrow> []) fx)"


text \<open>The effects of exporting \<open>G1\<close> in the scenario, its \<open>meta.json\<close> and its \<open>members.csv\<close>.\<close>

definition scenario_effects :: "fs_effect list" where
  "scenario_effects =
     fst (export_channel_metadata (Some ''out'') scenario_contacts owner_O (Some [''G1''])
            sample_now)"

definition scenario_meta :: group_meta where
  "scenario_meta = hd (written_meta scenario_effects)"


text \<open>A conversation row and a message row with the columns that matter set.\<close>

definition conversation ::
  "string \<Rightarrow> string option \<Rightarrow> string option \<Rightarrow> conversation_row" where
  "conversation i n p =
     \<lparr> row_type = Some ''private'', row_id = i, row_serviceId = None, row_e164 = None,
       row_name = n, row_profileName = p, row_members = None \<rparr>"

definition message ::
  "string option \<Rightarrow> string option \<Rightarrow> string \<Rightarrow> string \<Rightarrow> int option \<Rightarrow> message_row" where
  "message cid t j i timer =
     \<lparr> m_conversationId = cid, m_type = t, m_json = Some j, m_id = i, m_body = None,
       m_sourceServiceId = None, m_timestamp = None, m_sent_at = None,
       m_serverTimestamp = None, m_hasAttachments = None, m_readStatus = None,
       m_seenStatus = None, m_expireTimer = timer \<rparr>"

text \<open>
  Arguments of \<open>main\<close> that ask for the metadata path, and a store with one retained
  conversation and one expiring message of a given type.
\<close>

definition sample_args :: main_args where
  "sample_args =
     \<lparr> arg_dest = Some ''out'', arg_password = None, arg_key = None, arg_chats = '''',
       arg_list_chats = False, arg_include_empty = False, arg_include_disappearing = False,
       arg_network_only = True \<rparr>"

definition expiring_store :: "string option \<Rightarrow> store" where
  "expiring_store t =
     \<lparr> conversation_rows = [conversation ''c1'' (Some ''Ann'') None],
       message_rows = [message (Some ''c1'') t ''{}'' ''m1'' (Some 5)] \<rparr>"

section \<open>Notions used in the statements\<close>

text \<open>
  A message row appears in a conversations map when the bucket of the row's conversation
  holds a message with the row's id (\<open>messages.id\<close> is the primary key of the table).
\<close>

definition appears :: "message_row \<Rightarrow> Convos \<Rightarrow> bool" where
  "appears r convos =
     (\<exists>(k, ms) \<in> set convos. m_conversationId r = Some k \<and> m_id r \<in> msg_id ` set ms)"

text \<open>The conversation rows that the name filter retains, by id.\<close>

definition retained :: "string \<Rightarrow> conversation_row list \<Rightarrow> string set" where
  "retained chats rows = row_id ` {c \<in> set rows. chat_selected chats (chats_list_of chats) c}"

text \<open>The ids of the messages in the bucket of a conversation.\<close>

definition bucket_ids :: "Convos \<Rightarrow> string \<Rightarrow> string set" where
  "bucket_ids convos k = (case map_of convos k of None \<Rightarrow> {} | Some ms \<Rightarrow> msg_id ` set ms)"

text \<open>
  The three exclusion rules of the loop over the message rows, for a set \<open>K\<close> of retained
  conversation ids.
\<close>

definition accepted :: "bool \<Rightarrow> string set \<Rightarrow> message_row \<Rightarrow> bool" where
  "accepted include_disappearing K r =
     (case m_conversationId r of
        None \<Rightarrow> False
      | Some cid \<Rightarrow>
          (cid \<noteq> [] \<and> cid \<in> K) \<and> \<not> excluded_type (m_type r) \<and>
          \<not> (truthy_int (m_expireTimer r) \<and> \<not> include_disappearing))"

section \<open>Conversation pruning\<close>

text \<open>
  Claim C9.  Pruning with "include empty" false is idempotent: applied to the result of
  a first pruning, on any conversations map, it removes nothing more.
\<close>

theorem prune_idempotent:
  "prune False (prune False convos) = prune False convos"
  by (simp add: prune_def)

section \<open>Session establishment\<close>

text \<open>
  What \<open>fetch_data\<close> does once the key is known, and when no key can be had.
\<close>

lemma fetch_data_resolved:
  assumes "resolve_key get_key password key = Inr k"
  shows "fetch_data get_key loads db password key chats include_empty include_disappearing =
           ([pragma_key k, pragma_cipher_page_size, pragma_kdf_iter, pragma_cipher_hmac_algorithm,
             pragma_cipher_kdf_algorithm, query_conversations, query_messages],
            (case load_messages loads include_disappearing (message_rows db)
                    (snd (load_conversations chats (chats_list_of chats) (conversation_rows db) ([], []))) of
               Inl e \<Rightarrow> Inl e
             | Inr convos \<Rightarrow>
                 Inr (prune include_empty convos,
                      fst (load_conversations chats (chats_list_of chats) (conversation_rows db) ([], [])))))"
  using assms by (simp add: fetch_data_def execute_def Let_def split: sum.splits)

lemma fetch_data_unresolved:
  assumes "resolve_key get_key password key = Inl e"
  shows "fetch_data get_key loads db password key chats include_empty include_disappearing =
           ([], Inl e)"
  using assms by (simp add: fetch_data_def)

text \<open>
  Claim C4, as stated, fails: the key pragma is the first statement executed, before
  the page size, not the last of the five.
\<close>

theorem key_pragma_comes_first:
  "take 5 (fst (fetch_data sample_get_key sample_loads \<lparr> conversation_rows = [], message_rows = [] \<rparr>
          None (Some ''00ff'') '''' False False)) =
     [pragma_key ''00ff'', pragma_cipher_page_size, pragma_kdf_iter, pragma_cipher_hmac_algorithm,
      pragma_cipher_kdf_algorithm] \<and>
   take 5 (fst (fetch_data sample_get_key sample_loads \<lparr> conversation_rows = [], message_rows = [] \<rparr>
          None (Some ''00ff'') '''' False False)) \<noteq>
     [pragma_cipher_page_size, pragma_kdf_iter, pragma_cipher_hmac_algorithm,
      pragma_cipher_kdf_algorithm, pragma_key ''00ff'']"
  by code_simp

text \<open>
  Claim C4, amended.  Whenever a key is resolved, the cursor executes, in this order and
  before any query: the key pragma, then page size, key-derivation iteration count, HMAC
  algorithm and key-derivation algorithm; the two queries follow.
\<close>

theorem cipher_parameters_order:
  assumes "resolve_key get_key password key = Inr k"
  shows "fst (fetch_data get_key loads db password key chats include_empty include_disappearing) =
           [pragma_key k, pragma_cipher_page_size, pragma_kdf_iter, pragma_cipher_hmac_algorithm,
            pragma_cipher_kdf_algorithm, query_conversations, query_messages]"
  by (simp add: fetch_data_resolved [OF assms])

theorem cipher_parameters_order_witness:
  "resolve_key sample_get_key None (Some ''00ff'') = Inr ''00ff'' \<and>
   fst (fetch_data sample_get_key sample_loads \<lparr> conversation_rows = [], message_rows = [] \<rparr>
          None (Some ''00ff'') '''' False False) =
     [pragma_key ''00ff'', pragma_cipher_page_size, pragma_kdf_iter, pragma_cipher_hmac_algorithm,
      pragma_cipher_kdf_algorithm, query_conversations, query_messages]"
  using cipher_parameters_order [of sample_get_key None "Some ''00ff''" "''00ff''" sample_loads
      "\<lparr> conversation_rows = [], message_rows = [] \<rparr>" "''''" False False]
  by (simp add: resolve_key_def)

section \<open>Contact normalisation\<close>

lemma load_conversations_other:
  "k \<notin> row_id ` set rows \<Longrightarrow>
   map_of (fst (load_conversations chats cl rows st)) k = map_of (fst st) k"
  by (induction rows arbitrary: st) (auto simp: load_conversation_def Let_def AList.update_conv')

lemma load_conversations_contact:
  "r \<in> set rows \<Longrightarrow> distinct (map row_id rows) \<Longrightarrow>
   map_of (fst (load_conversations chats cl rows st)) (row_id r) = Some (row_contact r)"
proof (induction rows arbitrary: st)
  case Nil
  then show ?case by simp
next
  case (Cons x rows)
  show ?case
  proof (cases "r = x")
    case True
    with Cons.prems have "row_id r \<notin> row_id ` set rows" by auto
    then show ?thesis
      using True by (simp add: load_conversations_other load_conversation_def Let_def AList.update_conv')
  next
    case False
    with Cons show ?thesis by auto
  qed
qed

lemma row_contact_name:
  "name (row_contact r) = (case row_name r of None \<Rightarrow> row_profileName r | Some n \<Rightarrow> Some n)"
  by (simp add: row_contact_def Let_def split: option.splits)

lemma fetch_data_contacts:
  assumes "snd (fetch_data get_key loads db password key chats include_empty include_disappearing) =
             Inr (convos, contacts)"
  shows "contacts = fst (load_conversations chats (chats_list_of chats) (conversation_rows db) ([], []))"
proof (cases "resolve_key get_key password key")
  case (Inl e)
  with assms show ?thesis by (simp add: fetch_data_unresolved)
next
  case (Inr k)
  with assms show ?thesis
    by (auto simp: fetch_data_resolved split: sum.splits)
qed

text \<open>
  Claim C6, as stated, fails when "empty" is the empty string: the fallback tests
  \<open>name is None\<close>, so a row with name \<open>""\<close> and profile name \<open>"Bob"\<close> keeps the name \<open>""\<close>.
\<close>

theorem empty_name_is_kept:
  "snd (fetch_data sample_get_key sample_loads
          \<lparr> conversation_rows = [conversation ''c1'' (Some '''') (Some ''Bob'')], message_rows = [] \<rparr>
          None None '''' True False) =
     Inr ([(''c1'', [])],
          [(''c1'', \<lparr> contact_id = ''c1'', serviceId = None, name = Some '''', number = None,
                     profile_name = Some ''Bob'', members = [], is_group = False \<rparr>)])"
  by code_simp

text \<open>
  Claim C6, amended.  For every conversation row, the normalized contact that
  \<open>fetch_data\<close> returns under the row's id (ids being unique, as the primary key is) has
  as its name the row's profile name when the primary name is absent (\<open>NULL\<close>), and the
  primary name itself whenever it is present, the empty string included.
\<close>

theorem name_falls_back_only_when_absent:
  assumes "snd (fetch_data get_key loads db password key chats include_empty include_disappearing) =
             Inr (convos, contacts)"
    and "distinct (map row_id (conversation_rows db))"
    and "r \<in> set (conversation_rows db)"
  shows "\<exists>c. map_of contacts (row_id r) = Some c \<and>
             name c = (case row_name r of None \<Rightarrow> row_profileName r | Some n \<Rightarrow> Some n)"
  using load_conversations_contact [OF assms(3) assms(2)]
  by (simp add: fetch_data_contacts [OF assms(1)] row_contact_name)

theorem name_falls_back_only_when_absent_witness:
  "snd (fetch_data sample_get_key sample_loads
          \<lparr> conversation_rows = [conversation ''c1'' None (Some ''Bob''),
                                  conversation ''c2'' (Some '''') (Some ''Eve'')],
            message_rows = [] \<rparr>
          None None '''' True False) =
     Inr ([(''c1'', []), (''c2'', [])],
          [(''c1'', row_contact (conversation ''c1'' None (Some ''Bob''))),
           (''c2'', row_contact (conversation ''c2'' (Some '''') (Some ''Eve'')))]) \<and>
   distinct (map row_id [conversation ''c1'' None (Some ''Bob''),
                         conversation ''c2'' (Some '''') (Some ''Eve'')]) \<and>
   (\<exists>c. map_of [(''c1'', row_contact (conversation ''c1'' None (Some ''Bob''))),
                (''c2'', row_contact (conversation ''c2'' (Some '''') (Some ''Eve'')))] ''c1'' = Some c \<and>
        name c = Some ''Bob'') \<and>
   (\<exists>c. map_of [(''c1'', row_contact (conversation ''c1'' None (Some ''Bob''))),
                (''c2'', row_contact (conversation ''c2'' (Some '''') (Some ''Eve'')))] ''c2'' = Some c \<and>
        name c = Some '''')"
proof -
  let ?db = "\<lparr> conversation_rows = [conversation ''c1'' None (Some ''Bob''),
                                  conversation ''c2'' (Some '''') (Some ''Eve'')],
            message_rows = [] \<rparr>"
  have a: "snd (fetch_data sample_get_key sample_loads ?db None None '''' True False) =
     Inr ([(''c1'', []), (''c2'', [])],
          [(''c1'', row_contact (conversation ''c1'' None (Some ''Bob''))),
           (''c2'', row_contact (conversation ''c2'' (Some '''') (Some ''Eve'')))])"
    by code_simp
  have b: "distinct (map row_id (conversation_rows ?db))"
    by (simp add: conversation_def)
  have c1: "conversation ''c1'' None (Some ''Bob'') \<in> set (conversation_rows ?db)"
    by simp
  have c2: "conversation ''c2'' (Some '''') (Some ''Eve'') \<in> set (conversation_rows ?db)"
    by simp
  from name_falls_back_only_when_absent [OF a b c1] name_falls_back_only_when_absent [OF a b c2] a b
  show ?thesis by (simp add: conversation_def)
qed

section \<open>Message ingestion\<close>

subsection \<open>Malformed payloads\<close>

lemma load_message_malformed:
  "json_loads loads (m_json r) = Inl e \<Longrightarrow> load_message loads incl r convos = Inl e"
  by (simp add: load_message_def)

lemma load_messages_malformed:
  "r \<in> set rows \<Longrightarrow> json_loads loads (m_json r) = Inl e \<Longrightarrow>
   \<exists>e'. load_messages loads incl rows convos = Inl e'"
proof (induction rows arbitrary: convos)
  case Nil
  then show ?case by simp
next
  case (Cons x rows)
  show ?case
  proof (cases "load_message loads incl x convos")
    case (Inl e')
    then show ?thesis by simp
  next
    case (Inr convos')
    with Cons.prems have "r \<in> set rows"
      by (auto simp: load_message_malformed)
    from Cons.IH [OF this Cons.prems(2)] Inr show ?thesis by simp
  qed
qed

lemma fetch_data_malformed:
  assumes "r \<in> set (message_rows db)" and "json_loads loads (m_json r) = Inl e"
  shows "\<exists>e'. snd (fetch_data get_key loads db password key chats include_empty include_disappearing) = Inl e'"
proof (cases "resolve_key get_key password key")
  case (Inl e0)
  then show ?thesis by (simp add: fetch_data_unresolved)
next
  case (Inr k)
  from load_messages_malformed [OF assms]
  obtain e' where "load_messages loads include_disappearing (message_rows db)
      (snd (load_conversations chats (chats_list_of chats) (conversation_rows db) ([], []))) = Inl e'"
    by blast
  then show ?thesis by (simp add: fetch_data_resolved [OF Inr])
qed

text \<open>
  Claim C8.  The payload of a row is decoded before any exclusion rule is looked at: the
  pass over a row whose payload fails to decode raises the decoder's exception whatever
  the conversations map and the flag are, and ingestion of a stream that contains such a
  row fails.  In the evaluated stream the row has no conversation id, no type and an
  expiration timer: with a well-formed payload it is dropped and ingestion succeeds.
\<close>

theorem payload_decoded_before_exclusion:
  assumes "r \<in> set (message_rows db)" and "json_loads loads (m_json r) = Inl e"
  shows "load_message loads include_disappearing r convos = Inl e \<and>
         (\<exists>e'. snd (fetch_data get_key loads db password key chats include_empty include_disappearing) = Inl e')"
  using fetch_data_malformed [OF assms] load_message_malformed [OF assms(2)] by simp

theorem payload_decoded_before_exclusion_witness:
  "message None None ''{oops'' ''m1'' (Some 5) \<in>
     set (message_rows \<lparr> conversation_rows = [], message_rows = [message None None ''{oops'' ''m1'' (Some 5)] \<rparr>) \<and>
   json_loads sample_loads (m_json (message None None ''{oops'' ''m1'' (Some 5))) = Inl (JSONDecodeError ''{oops'') \<and>
   load_message sample_loads False (message None None ''{oops'' ''m1'' (Some 5)) [] = Inl (JSONDecodeError ''{oops'') \<and>
   (\<exists>e'. snd (fetch_data sample_get_key sample_loads
            \<lparr> conversation_rows = [], message_rows = [message None None ''{oops'' ''m1'' (Some 5)] \<rparr>
            None None '''' False False) = Inl e') \<and>
   snd (fetch_data sample_get_key sample_loads
            \<lparr> conversation_rows = [], message_rows = [message None None ''{}'' ''m1'' (Some 5)] \<rparr>
            None None '''' False False) = Inr ([], [])"
proof -
  have a: "message None None ''{oops'' ''m1'' (Some 5) \<in>
     set (message_rows \<lparr> conversation_rows = [], message_rows = [message None None ''{oops'' ''m1'' (Some 5)] \<rparr>)"
    by simp
  have b: "json_loads sample_loads (m_json (message None None ''{oops'' ''m1'' (Some 5))) = Inl (JSONDecodeError ''{oops'')"
    by (simp add: json_loads_def message_def sample_loads_def)
  have c: "snd (fetch_data sample_get_key sample_loads
            \<lparr> conversation_rows = [], message_rows = [message None None ''{}'' ''m1'' (Some 5)] \<rparr>
            None None '''' False False) = Inr ([], [])"
    by code_simp
  from payload_decoded_before_exclusion [OF a b, of False "[]" sample_get_key None None "''''" False] a b c
  show ?thesis by simp
qed

lemma load_messages_append:
  "load_messages loads incl (xs @ ys) convos =
     (case load_messages loads incl xs convos of
        Inl e \<Rightarrow> Inl e
      | Inr convos' \<Rightarrow> load_messages loads incl ys convos')"
  by (induction xs arbitrary: convos) (auto split: sum.splits)

lemma fetch_data_returns:
  assumes "\<not> isl (snd (fetch_data get_key loads db password key chats include_empty include_disappearing))"
  shows "\<exists>k c'. resolve_key get_key password key = Inr k \<and>
           load_messages loads include_disappearing (message_rows db)
             (snd (load_conversations chats (chats_list_of chats) (conversation_rows db) ([], []))) = Inr c'"
proof (cases "resolve_key get_key password key")
  case (Inl e)
  with assms show ?thesis by (simp add: fetch_data_unresolved)
next
  case (Inr k)
  with assms show ?thesis
    by (auto simp: fetch_data_resolved split: sum.splits)
qed

text \<open>
  Claim C3, as stated, fails in its second half: the exception is the decoder's, made
  from the payload alone.  Two streams that differ only in the id of the malformed row
  fail with the same exception, which therefore does not identify the message.
\<close>

theorem decode_error_hides_message_id:
  "snd (fetch_data sample_get_key sample_loads
          \<lparr> conversation_rows = [conversation ''c1'' (Some ''Ann'') None],
            message_rows = [message (Some ''c1'') (Some ''incoming'') ''{oops'' ''m1'' None] \<rparr>
          None None '''' False False) = Inl (JSONDecodeError ''{oops'') \<and>
   snd (fetch_data sample_get_key sample_loads
          \<lparr> conversation_rows = [conversation ''c1'' (Some ''Ann'') None],
            message_rows = [message (Some ''c1'') (Some ''incoming'') ''{oops'' ''m2'' None] \<rparr>
          None None '''' False False) = Inl (JSONDecodeError ''{oops'')"
  by code_simp

text \<open>
  Claim C3, amended.  For every message row whose payload fails to decode, ingestion of
  a stream that contains it fails, never silently.  When ingestion of the rows before it
  succeeds, the exception is the one that the decoder raised for that payload, whatever
  the id \<open>i\<close> of the row is: it does not identify the message.
\<close>

theorem malformed_payload_error:
  assumes "json_loads loads (m_json r) = Inl e"
  shows "(\<exists>e'. snd (fetch_data get_key loads (db\<lparr> message_rows := pre @ r\<lparr> m_id := i \<rparr> # post \<rparr>)
                    password key chats include_empty include_disappearing) = Inl e') \<and>
         (\<not> isl (snd (fetch_data get_key loads (db\<lparr> message_rows := pre \<rparr>)
                    password key chats include_empty include_disappearing)) \<longrightarrow>
          snd (fetch_data get_key loads (db\<lparr> message_rows := pre @ r\<lparr> m_id := i \<rparr> # post \<rparr>)
                    password key chats include_empty include_disappearing) = Inl e)"
proof (intro conjI impI)
  have bad: "json_loads loads (m_json (r\<lparr> m_id := i \<rparr>)) = Inl e"
    using assms by simp
  have "r\<lparr> m_id := i \<rparr> \<in> set (message_rows (db\<lparr> message_rows := pre @ r\<lparr> m_id := i \<rparr> # post \<rparr>))"
    by simp
  from fetch_data_malformed [OF this bad]
  show "\<exists>e'. snd (fetch_data get_key loads (db\<lparr> message_rows := pre @ r\<lparr> m_id := i \<rparr> # post \<rparr>)
                    password key chats include_empty include_disappearing) = Inl e'" .
next
  let ?c0 = "snd (load_conversations chats (chats_list_of chats) (conversation_rows db) ([], []))"
  assume "\<not> isl (snd (fetch_data get_key loads (db\<lparr> message_rows := pre \<rparr>)
                    password key chats include_empty include_disappearing))"
  from fetch_data_returns [OF this] obtain k c1
    where k: "resolve_key get_key password key = Inr k"
      and c1: "load_messages loads include_disappearing pre ?c0 = Inr c1"
    by auto
  have "load_message loads include_disappearing (r\<lparr> m_id := i \<rparr>) c1 = Inl e"
    using assms by (simp add: load_message_malformed)
  with c1 have "load_messages loads include_disappearing (pre @ r\<lparr> m_id := i \<rparr> # post) ?c0 = Inl e"
    by (simp add: load_messages_append)
  then show "snd (fetch_data get_key loads (db\<lparr> message_rows := pre @ r\<lparr> m_id := i \<rparr> # post \<rparr>)
                    password key chats include_empty include_disappearing) = Inl e"
    by (simp add: fetch_data_resolved [OF k])
qed

theorem malformed_payload_error_witness:
  "json_loads sample_loads (m_json (message (Some ''c1'') (Some ''incoming'') ''{oops'' ''m1'' None)) =
     Inl (JSONDecodeError ''{oops'') \<and>
   \<not> isl (snd (fetch_data sample_get_key sample_loads
          \<lparr> conversation_rows = [conversation ''c1'' (Some ''Ann'') None],
            message_rows = [message (Some ''c1'') (Some ''incoming'') ''{}'' ''m0'' None] \<rparr>
          None None '''' False False)) \<and>
   snd (fetch_data sample_get_key sample_loads
          \<lparr> conversation_rows = [conversation ''c1'' (Some ''Ann'') None],
            message_rows = [message (Some ''c1'') (Some ''incoming'') ''{}'' ''m0'' None,
                            message (Some ''c1'') (Some ''incoming'') ''{oops'' ''m7'' None,
                            message (Some ''c1'') (Some ''incoming'') ''{}'' ''m8'' None] \<rparr>
          None None '''' False False) = Inl (JSONDecodeError ''{oops'')"
proof -
  let ?db = "\<lparr> conversation_rows = [conversation ''c1'' (Some ''Ann'') None], message_rows = [] \<rparr>"
  let ?pre = "[message (Some ''c1'') (Some ''incoming'') ''{}'' ''m0'' None]"
  let ?post = "[message (Some ''c1'') (Some ''incoming'') ''{}'' ''m8'' None]"
  have a: "json_loads sample_loads (m_json (message (Some ''c1'') (Some ''incoming'') ''{oops'' ''m1'' None)) =
     Inl (JSONDecodeError ''{oops'')"
    by (simp add: json_loads_def message_def sample_loads_def)
  have b: "\<not> isl (snd (fetch_data sample_get_key sample_loads
          \<lparr> conversation_rows = [conversation ''c1'' (Some ''Ann'') None],
            message_rows = ?pre \<rparr> None None '''' False False))"
    by code_simp
  have d: "(message (Some ''c1'') (Some ''incoming'') ''{oops'' ''m1'' None)\<lparr> m_id := ''m7'' \<rparr> =
           message (Some ''c1'') (Some ''incoming'') ''{oops'' ''m7'' None"
    by (simp add: message_def)
  from malformed_payload_error [OF a, where db = ?db and pre = ?pre and post = ?post
      and i = "''m7''" and get_key = sample_get_key and password = None and key = None
      and chats = "''''" and include_empty = False and include_disappearing = False] b
  have "snd (fetch_data sample_get_key sample_loads
          \<lparr> conversation_rows = [conversation ''c1'' (Some ''Ann'') None],
            message_rows = [message (Some ''c1'') (Some ''incoming'') ''{}'' ''m0'' None,
                            message (Some ''c1'') (Some ''incoming'') ''{oops'' ''m7'' None,
                            message (Some ''c1'') (Some ''incoming'') ''{}'' ''m8'' None] \<rparr>
          None None '''' False False) = Inl (JSONDecodeError ''{oops'')"
    by (simp add: d)
  with a b show ?thesis by blast
qed

subsection \<open>Which rows reach the output\<close>

lemma set_update_subset: "set (AList.update k v al) \<subseteq> insert (k, v) (set al)"
  by (induction al) auto

lemma load_conversations_keys:
  "fst ` set (snd (load_conversations chats cl rows st)) =
     fst ` set (snd st) \<union> row_id ` {c \<in> set rows. chat_selected chats cl c}"
  by (induction rows arbitrary: st) (auto simp: load_conversation_def Let_def AList.dom_update)

lemma load_conversations_distinct:
  "distinct (map fst (snd st)) \<Longrightarrow>
   distinct (map fst (snd (load_conversations chats cl rows st)))"
  by (induction rows arbitrary: st) (auto simp: load_conversation_def Let_def AList.distinct_update)

lemma load_conversations_empty:
  "\<forall>(k, v) \<in> set (snd st). v = [] \<Longrightarrow>
   \<forall>(k, v) \<in> set (snd (load_conversations chats cl rows st)). v = []"
proof (induction rows arbitrary: st)
  case Nil
  then show ?case by simp
next
  case (Cons x rows)
  have "\<forall>(k, v) \<in> set (snd (load_conversation chats cl x st)). v = []"
    using Cons.prems set_update_subset [of "row_id x" "[]" "snd st"]
    by (auto simp: load_conversation_def Let_def)
  from Cons.IH [OF this] show ?case by simp
qed

lemma bucket_ids_empty:
  "\<forall>(k, v) \<in> set convos. v = [] \<Longrightarrow> bucket_ids convos k = {}"
  by (auto simp: bucket_ids_def split: option.splits dest!: map_of_SomeD)

lemma raw_message_id:
  "raw_message cid r j = Inr con \<Longrightarrow> msg_id con = m_id r"
  by (auto simp: raw_message_def split: json.splits)

lemma append_message_keys: "map fst (append_message cid con c) = map fst c"
proof (cases "map_of c cid")
  case None
  then show ?thesis by (simp add: append_message_def)
next
  case (Some ms)
  then have "cid \<in> set (map fst c)" by (force dest: map_of_SomeD)
  with Some show ?thesis by (simp add: append_message_def AList.update_keys)
qed

lemma load_message_step:
  assumes "load_message loads incl r c = Inr c'"
  shows "map fst c' = map fst c"
    and "bucket_ids c' k =
           bucket_ids c k \<union>
           (if accepted incl (fst ` set c) r \<and> m_conversationId r = Some k then {m_id r} else {})"
proof -
  from assms obtain j where j: "json_loads loads (m_json r) = Inr j"
    by (auto simp: load_message_def split: sum.splits)
  show "map fst c' = map fst c"
    using assms j
    by (auto simp: load_message_def append_message_keys
        split: option.splits if_splits sum.splits)
  show "bucket_ids c' k =
           bucket_ids c k \<union>
           (if accepted incl (fst ` set c) r \<and> m_conversationId r = Some k then {m_id r} else {})"
  proof (cases "accepted incl (fst ` set c) r")
    case False
    with assms j have "c' = c"
      by (auto simp: load_message_def accepted_def split: option.splits if_splits sum.splits)
    with False show ?thesis by simp
  next
    case True
    then obtain cid where cid: "m_conversationId r = Some cid" "cid \<noteq> []" "cid \<in> fst ` set c"
      and rest: "\<not> excluded_type (m_type r)" "\<not> (truthy_int (m_expireTimer r) \<and> \<not> incl)"
      by (auto simp: accepted_def split: option.splits)
    from cid(3) obtain ms where ms: "map_of c cid = Some ms"
      by (metis map_of_eq_None_iff not_None_eq)
    from assms j cid rest obtain con where con: "raw_message cid r j = Inr con"
      and c': "c' = append_message cid con c"
      by (auto simp: load_message_def split: sum.splits if_splits)
    from con have "msg_id con = m_id r" by (rule raw_message_id)
    with ms c' True cid(1) show ?thesis
      by (auto simp: append_message_def bucket_ids_def AList.update_conv')
  qed
qed

lemma load_messages_steps:
  "load_messages loads incl rows c = Inr c' \<Longrightarrow>
   map fst c' = map fst c \<and>
   bucket_ids c' k =
     bucket_ids c k \<union> m_id ` {r \<in> set rows. accepted incl (fst ` set c) r \<and> m_conversationId r = Some k}"
proof (induction rows arbitrary: c)
  case Nil
  then show ?case by simp
next
  case (Cons x rows)
  from Cons.prems obtain c1 where c1: "load_message loads incl x c = Inr c1"
    and rest: "load_messages loads incl rows c1 = Inr c'"
    by (auto split: sum.splits)
  have keys: "map fst c1 = map fst c" using c1 by (rule load_message_step(1))
  then have dom: "fst ` set c1 = fst ` set c" by (metis set_map)
  from Cons.IH [OF rest] load_message_step(2) [OF c1, of k] keys dom
  show ?case by auto
qed

lemma map_of_filter_distinct:
  "distinct (map fst c) \<Longrightarrow>
   map_of (filter P c) k =
     (case map_of c k of None \<Rightarrow> None | Some v \<Rightarrow> if P (k, v) then Some v else None)"
proof (induction c)
  case Nil
  then show ?case by simp
next
  case (Cons x c)
  obtain a b where x: "x = (a, b)" by (cases x)
  show ?case
  proof (cases "k = a")
    case True
    with Cons.prems x have "map_of c k = None"
      by (simp add: map_of_eq_None_iff)
    with Cons x True show ?thesis by simp
  next
    case False
    with Cons x show ?thesis by simp
  qed
qed

lemma bucket_ids_prune:
  "distinct (map fst c) \<Longrightarrow> bucket_ids (prune ie c) k = bucket_ids c k"
  by (auto simp: prune_def bucket_ids_def map_of_filter_distinct split: option.splits)

lemma appears_bucket_ids:
  "distinct (map fst c) \<Longrightarrow>
   appears r c \<longleftrightarrow> (\<exists>k. m_conversationId r = Some k \<and> m_id r \<in> bucket_ids c k)"
proof -
  assume d: "distinct (map fst c)"
  have "appears r c \<longleftrightarrow>
          (\<exists>k ms. (k, ms) \<in> set c \<and> m_conversationId r = Some k \<and> m_id r \<in> msg_id ` set ms)"
    by (auto simp: appears_def)
  also have "\<dots> \<longleftrightarrow>
          (\<exists>k ms. map_of c k = Some ms \<and> m_conversationId r = Some k \<and> m_id r \<in> msg_id ` set ms)"
    using d by simp
  also have "\<dots> \<longleftrightarrow> (\<exists>k. m_conversationId r = Some k \<and> m_id r \<in> bucket_ids c k)"
    by (auto simp: bucket_ids_def split: option.splits)
  finally show ?thesis .
qed

lemma fetch_data_convos:
  assumes "snd (fetch_data get_key loads db password key chats include_empty include_disappearing) =
             Inr (convos, contacts)"
  shows "\<exists>c'. load_messages loads include_disappearing (message_rows db)
                 (snd (load_conversations chats (chats_list_of chats) (conversation_rows db) ([], []))) = Inr c' \<and>
              convos = prune include_empty c'"
proof (cases "resolve_key get_key password key")
  case (Inl e)
  with assms show ?thesis by (simp add: fetch_data_unresolved)
next
  case (Inr k)
  with assms show ?thesis
    by (auto simp: fetch_data_resolved split: sum.splits)
qed

lemma fetch_data_appears:
  assumes "snd (fetch_data get_key loads db password key chats include_empty include_disappearing) =
             Inr (convos, contacts)"
  shows "appears r convos \<longleftrightarrow>
           (\<exists>r' \<in> set (message_rows db).
              accepted include_disappearing (retained chats (conversation_rows db)) r' \<and>
              m_conversationId r' = m_conversationId r \<and> m_id r' = m_id r)"
proof -
  let ?c0 = "snd (load_conversations chats (chats_list_of chats) (conversation_rows db) ([], []))"
  from fetch_data_convos [OF assms] obtain c'
    where c': "load_messages loads include_disappearing (message_rows db) ?c0 = Inr c'"
      and convos: "convos = prune include_empty c'"
    by blast
  have d0: "distinct (map fst ?c0)"
    by (rule load_conversations_distinct) simp
  have e0: "bucket_ids ?c0 k = {}" for k
    by (rule bucket_ids_empty, rule load_conversations_empty) simp
  have k0: "fst ` set ?c0 = retained chats (conversation_rows db)"
    by (simp add: load_conversations_keys retained_def)
  from load_messages_steps [OF c'] have keys: "map fst c' = map fst ?c0"
    and ids: "bucket_ids c' k =
      m_id ` {r \<in> set (message_rows db).
               accepted include_disappearing (retained chats (conversation_rows db)) r \<and>
               m_conversationId r = Some k}" for k
    by (simp_all add: e0 k0)
  from keys d0 have d': "distinct (map fst c')" by simp
  then have d: "distinct (map fst convos)"
    by (simp add: convos prune_def distinct_map_filter)
  have "bucket_ids convos k = bucket_ids c' k" for k
    using d' by (simp add: convos bucket_ids_prune)
  with ids have "bucket_ids convos k =
      m_id ` {r \<in> set (message_rows db).
               accepted include_disappearing (retained chats (conversation_rows db)) r \<and>
               m_conversationId r = Some k}" for k
    by simp
  then have "appears r convos \<longleftrightarrow>
      (\<exists>k. m_conversationId r = Some k \<and>
           m_id r \<in> m_id ` {r \<in> set (message_rows db).
               accepted include_disappearing (retained chats (conversation_rows db)) r \<and>
               m_conversationId r = Some k})"
    by (simp add: appears_bucket_ids [OF d])
  also have "\<dots> \<longleftrightarrow> (\<exists>r' \<in> set (message_rows db).
              accepted include_disappearing (retained chats (conversation_rows db)) r' \<and>
              m_conversationId r' = m_conversationId r \<and> m_id r' = m_id r)"
  proof
    assume "\<exists>k. m_conversationId r = Some k \<and>
           m_id r \<in> m_id ` {r \<in> set (message_rows db).
               accepted include_disappearing (retained chats (conversation_rows db)) r \<and>
               m_conversationId r = Some k}"
    then show "\<exists>r' \<in> set (message_rows db).
              accepted include_disappearing (retained chats (conversation_rows db)) r' \<and>
              m_conversationId r' = m_conversationId r \<and> m_id r' = m_id r"
      by force
  next
    assume "\<exists>r' \<in> set (message_rows db).
              accepted include_disappearing (retained chats (conversation_rows db)) r' \<and>
              m_conversationId r' = m_conversationId r \<and> m_id r' = m_id r"
    then obtain r' where r': "r' \<in> set (message_rows db)"
        "accepted include_disappearing (retained chats (conversation_rows db)) r'"
        "m_conversationId r' = m_conversationId r" "m_id r' = m_id r"
      by blast
    from r'(2) obtain k where k: "m_conversationId r' = Some k"
      by (auto simp: accepted_def split: option.splits)
    from r'(1,2) k have "r' \<in> {x \<in> set (message_rows db).
               accepted include_disappearing (retained chats (conversation_rows db)) x \<and>
               m_conversationId x = Some k}"
      by simp
    then have "m_id r' \<in> m_id ` {x \<in> set (message_rows db).
               accepted include_disappearing (retained chats (conversation_rows db)) x \<and>
               m_conversationId x = Some k}"
      by (rule imageI)
    moreover from k r'(3) have "m_conversationId r = Some k" by simp
    ultimately show "\<exists>k. m_conversationId r = Some k \<and>
           m_id r \<in> m_id ` {r \<in> set (message_rows db).
               accepted include_disappearing (retained chats (conversation_rows db)) r \<and>
               m_conversationId r = Some k}"
      unfolding r'(4) by blast
  qed
  finally show ?thesis .
qed

lemma expiring_store_retained:
  "''c1'' \<in> retained '''' (conversation_rows (expiring_store (Some ''incoming'')))"
  by (simp add: retained_def expiring_store_def conversation_def chat_selected_def)

text \<open>
  Claim C7, as stated, fails: with "include disappearing" true, an expiring row of type
  \<open>keychange\<close> is still dropped, and the conversation stays empty in the output.
\<close>

theorem expiring_keychange_absent:
  "truthy_int (m_expireTimer (message (Some ''c1'') (Some ''keychange'') ''{}'' ''m1'' (Some 5))) \<and>
   snd (fetch_data sample_get_key sample_loads
          \<lparr> conversation_rows = [conversation ''c1'' (Some ''Ann'') None],
            message_rows = [message (Some ''c1'') (Some ''keychange'') ''{}'' ''m1'' (Some 5)] \<rparr>
          None None '''' True True) =
     Inr ([(''c1'', [])], [(''c1'', row_contact (conversation ''c1'' (Some ''Ann'') None))])"
  by code_simp

text \<open>
  Claim C7, amended.  When ingestion succeeds (message ids being unique), a message row
  with a non-zero expiration timer appears in the output conversations if and only if
  "include disappearing" was true and the row passes the other two rules: its
  conversation id is non-empty and retained, and its type is not excluded.
\<close>

theorem expiring_message_appears_iff:
  assumes "snd (fetch_data get_key loads db password key chats include_empty include_disappearing) =
             Inr (convos, contacts)"
    and "distinct (map m_id (message_rows db))"
    and "r \<in> set (message_rows db)"
    and "truthy_int (m_expireTimer r)"
  shows "appears r convos \<longleftrightarrow>
           include_disappearing \<and>
           (\<exists>cid. m_conversationId r = Some cid \<and> cid \<noteq> [] \<and>
                  cid \<in> retained chats (conversation_rows db)) \<and>
           \<not> excluded_type (m_type r)"
proof -
  have same: "r' = r" if "r' \<in> set (message_rows db)" "m_id r' = m_id r" for r'
    using that assms(2,3) by (auto simp: distinct_map dest: inj_onD)
  have "appears r convos \<longleftrightarrow>
          accepted include_disappearing (retained chats (conversation_rows db)) r"
    unfolding fetch_data_appears [OF assms(1)] using assms(3) same by auto
  also have "\<dots> \<longleftrightarrow> include_disappearing \<and>
           (\<exists>cid. m_conversationId r = Some cid \<and> cid \<noteq> [] \<and>
                  cid \<in> retained chats (conversation_rows db)) \<and>
           \<not> excluded_type (m_type r)"
    using assms(4) by (auto simp: accepted_def split: option.splits)
  finally show ?thesis .
qed

theorem expiring_message_appears_iff_witness:
  "\<not> isl (snd (fetch_data sample_get_key sample_loads (expiring_store (Some ''incoming''))
                 None None '''' False True)) \<and>
   distinct (map m_id (message_rows (expiring_store (Some ''incoming'')))) \<and>
   truthy_int (m_expireTimer (message (Some ''c1'') (Some ''incoming'') ''{}'' ''m1'' (Some 5))) \<and>
   appears (message (Some ''c1'') (Some ''incoming'') ''{}'' ''m1'' (Some 5))
     (fst (projr (snd (fetch_data sample_get_key sample_loads (expiring_store (Some ''incoming''))
                         None None '''' False True)))) \<and>
   \<not> appears (message (Some ''c1'') (Some ''incoming'') ''{}'' ''m1'' (Some 5))
     (fst (projr (snd (fetch_data sample_get_key sample_loads (expiring_store (Some ''incoming''))
                         None None '''' False False))))"
proof -
  let ?r = "message (Some ''c1'') (Some ''incoming'') ''{}'' ''m1'' (Some 5)"
  let ?db = "expiring_store (Some ''incoming'')"
  have ok: "\<not> isl (snd (fetch_data sample_get_key sample_loads ?db None None '''' False b))" for b
    by (cases b) (simp, code_simp, simp, code_simp)
  have ret: "snd (fetch_data sample_get_key sample_loads ?db None None '''' False b) =
      Inr (fst (projr (snd (fetch_data sample_get_key sample_loads ?db None None '''' False b))),
           snd (projr (snd (fetch_data sample_get_key sample_loads ?db None None '''' False b))))" for b
    using ok [of b]
    by (cases "snd (fetch_data sample_get_key sample_loads ?db None None '''' False b)") auto
  have d: "distinct (map m_id (message_rows ?db))" by (simp add: expiring_store_def)
  have m: "?r \<in> set (message_rows ?db)" by (simp add: expiring_store_def)
  have t: "truthy_int (m_expireTimer ?r)" by (simp add: truthy_int_def message_def)
  have e: "(\<exists>cid. m_conversationId ?r = Some cid \<and> cid \<noteq> [] \<and> cid \<in> retained '''' (conversation_rows ?db)) \<and>
           \<not> excluded_type (m_type ?r)"
    using expiring_store_retained by (simp add: message_def excluded_type_def)
  from expiring_message_appears_iff [OF ret [of True] d m t]
       expiring_message_appears_iff [OF ret [of False] d m t] e ok [of True] d t
  show ?thesis by blast
qed

section \<open>Group metadata\<close>

subsection \<open>Where the written documents come from\<close>

lemma by_serviceId_inv:
  "\<forall>(k, c) \<in> set acc. serviceId c = k \<Longrightarrow>
   \<forall>(k, c) \<in> set (fold (\<lambda>c. AList.update (serviceId c) c) cs acc). serviceId c = k"
proof (induction cs arbitrary: acc)
  case Nil
  then show ?case by simp
next
  case (Cons c cs)
  have "set (AList.update (serviceId c) c acc) \<subseteq> insert (serviceId c, c) (set acc)"
    by (induction acc) auto
  with Cons.prems have "\<forall>(k, c') \<in> set (AList.update (serviceId c) c acc). serviceId c' = k"
    by auto
  from Cons.IH [OF this] show ?case by simp
qed

lemma contacts_by_serviceId_key:
  "map_of (contacts_by_serviceId contacts) k = Some c \<Longrightarrow> serviceId c = k"
  using by_serviceId_inv [of "[]" "map snd contacts"]
  by (auto simp: contacts_by_serviceId_def dest!: map_of_SomeD)

lemma resolve_members_serviceId:
  "resolve_members (contacts_by_serviceId contacts) ms = Inr cs \<Longrightarrow>
   map serviceId cs = map Some ms"
  by (induction ms arbitrary: cs)
     (auto split: option.splits sum.splits dest: contacts_by_serviceId_key)

lemma export_group_meta:
  assumes "WriteMetaJson p gm \<in> set (fst (export_group dest idx ag owner incl now (key, c)))"
  shows "is_group c \<and> (\<exists>ms. resolve_members idx (members c) = Inr ms \<and>
           gm = make_group_meta key c ms ag owner (now key))"
  using assms
  by (auto simp: export_group_def Let_def split: if_splits option.splits sum.splits)


lemma export_loop_effect:
  "f \<in> set (fst (export_loop pass cs)) \<Longrightarrow> \<exists>kc \<in> set cs. f \<in> set (fst (pass kc))"
proof (induction cs)
  case Nil
  then show ?case by simp
next
  case (Cons kc cs)
  then show ?case
    by (cases "pass kc") (auto split: option.splits)
qed

lemma export_meta_written:
  assumes "WriteMetaJson p gm \<in> set (fst (export_channel_metadata dest contacts owner include_chats now))"
  shows "\<exists>key c ms. (key, c) \<in> set contacts \<and> is_group c \<and>
           map serviceId ms = map Some (members c) \<and>
           gm = make_group_meta key c ms (all_groups_of contacts) owner (now key)"
proof -
  from assms obtain kc where kc: "kc \<in> set contacts"
    and f: "WriteMetaJson p gm \<in> set (fst (export_group dest (contacts_by_serviceId contacts)
              (all_groups_of contacts) owner include_chats now kc))"
    unfolding export_channel_metadata_def by (blast dest: export_loop_effect)
  obtain key c where [simp]: "kc = (key, c)" by (cases kc)
  from f obtain ms where g: "is_group c"
    and r: "resolve_members (contacts_by_serviceId contacts) (members c) = Inr ms"
    and gm: "gm = make_group_meta key c ms (all_groups_of contacts) owner (now key)"
    using export_group_meta by fastforce
  from r have "map serviceId ms = map Some (members c)" by (rule resolve_members_serviceId)
  with kc g gm show ?thesis by auto
qed


lemma resolved_nth:
  assumes "map serviceId ms = map Some (members c)" and "i < length (members c)"
  shows "length ms = length (members c)" and "serviceId (ms ! i) = Some (members c ! i)"
proof -
  from assms(1) show len: "length ms = length (members c)" by (rule map_eq_imp_length_eq)
  from assms(1) have "map serviceId ms ! i = map Some (members c) ! i" by simp
  with len assms(2) show "serviceId (ms ! i) = Some (members c ! i)" by simp
qed


lemma other_groups_of_other:
  "serviceId member = Some s \<Longrightarrow> Some s \<noteq> serviceId owner \<Longrightarrow>
   other_groups_of key ag owner member =
     map name (filter (\<lambda>g. s \<in> set (members g) \<and> key \<noteq> contact_id g) ag)"
  by (simp add: other_groups_of_def opt_in_def)

lemma scenario_meta_written:
  "WriteMetaJson [''out'', ''G1'', ''meta.json''] scenario_meta \<in> set scenario_effects"
  by code_simp


subsection \<open>Redaction of the owner\<close>



text \<open>
  Claim C1, as stated, fails: in the scenario \<open>G1 = {O, A, B}\<close>, \<open>G2 = {A, C, O}\<close>, the
  export of \<open>G1\<close> with owner \<open>O\<close> gives member \<open>A\<close> the list \<open>["G2"]\<close>, not \<open>[]\<close>.  The test
  \<open>member.serviceId != owner.serviceId\<close> empties the list of the owner's own record only.
\<close>

theorem scenario_G1_other_groups:
  "map (\<lambda>gm. map (\<lambda>m. (member_name m, other_groups m)) (meta_members gm))
     (written_meta (fst (export_channel_metadata (Some ''out'') scenario_contacts owner_O
        (Some [''G1'']) sample_now))) =
   [[(Some ''O'', []), (Some ''A'', [Some ''G2'']), (Some ''B'', [])]]"
  by code_simp

text \<open>
  Claim C1, amended.  In every \<open>meta.json\<close> written, the record of a member whose service
  id is not the owner's lists the names of all groups, other than the exported one by id,
  whose member list contains that service id, whether or not the owner belongs to them.
\<close>

theorem other_groups_of_non_owner:
  assumes "WriteMetaJson p gm \<in> set (fst (export_channel_metadata dest contacts owner include_chats now))"
  shows "\<exists>key c. (key, c) \<in> set contacts \<and> is_group c \<and> meta_name gm = name c \<and>
           length (meta_members gm) = length (members c) \<and>
           (\<forall>i < length (members c). Some (members c ! i) \<noteq> serviceId owner \<longrightarrow>
              other_groups (meta_members gm ! i) =
                map name (filter (\<lambda>g. members c ! i \<in> set (members g) \<and> key \<noteq> contact_id g)
                            (all_groups_of contacts)))"
proof -
  from assms obtain key c ms where kc: "(key, c) \<in> set contacts" "is_group c"
    and ms: "map serviceId ms = map Some (members c)"
    and gm: "gm = make_group_meta key c ms (all_groups_of contacts) owner (now key)"
    using export_meta_written by blast
  have "other_groups (meta_members gm ! i) =
          map name (filter (\<lambda>g. members c ! i \<in> set (members g) \<and> key \<noteq> contact_id g)
                      (all_groups_of contacts))"
    if "i < length (members c)" "Some (members c ! i) \<noteq> serviceId owner" for i
    using that resolved_nth [OF ms that(1)]
    by (simp add: gm make_group_meta_def member_entry_def other_groups_of_other)
  moreover have "length (meta_members gm) = length (members c)" "meta_name gm = name c"
    using map_eq_imp_length_eq [OF ms] by (simp_all add: gm make_group_meta_def)
  ultimately show ?thesis using kc by blast
qed

theorem other_groups_of_non_owner_witness:
  "WriteMetaJson [''out'', ''G1'', ''meta.json''] scenario_meta \<in> set scenario_effects \<and>
   (\<exists>key c. (key, c) \<in> set scenario_contacts \<and> is_group c \<and> meta_name scenario_meta = name c \<and>
      length (meta_members scenario_meta) = length (members c) \<and>
      (\<forall>i < length (members c). Some (members c ! i) \<noteq> serviceId owner_O \<longrightarrow>
         other_groups (meta_members scenario_meta ! i) =
           map name (filter (\<lambda>g. members c ! i \<in> set (members g) \<and> key \<noteq> contact_id g)
                       (all_groups_of scenario_contacts))))"
  using scenario_meta_written
    other_groups_of_non_owner [of "[''out'', ''G1'', ''meta.json'']" scenario_meta
      "Some ''out''" scenario_contacts owner_O "Some [''G1'']" sample_now]
  unfolding scenario_effects_def by blast

section \<open>The call of \<open>fetch_data\<close> in \<open>main\<close>\<close>

text \<open>
  Claim C2, as stated, fails for the invocations in which \<open>fetch_data\<close> itself raises:
  with a malformed payload in the store, \<open>main\<close> ends with the decoder's exception, not
  with an unpacking error.
\<close>

theorem main_fails_with_decode_error:
  "main sample_get_key sample_loads True
     \<lparr> conversation_rows = [conversation ''c1'' (Some ''Ann'') None],
       message_rows = [message (Some ''c1'') (Some ''incoming'') ''{oops'' ''m1'' None] \<rparr>
     sample_now sample_rest sample_args = ([], JSONDecodeError ''{oops'')"
  by code_simp

text \<open>
  Claim C2, amended.  Every invocation of \<open>main\<close> that reaches the data-fetch step ends
  there without any effect on the file system: with the exception of \<open>fetch_data\<close> when
  it raises, and with the \<open>ValueError\<close> of unpacking two values into three names whenever
  \<open>fetch_data\<close> returns, on the metadata path as on every other.
\<close>

theorem main_fails_at_data_fetch:
  assumes "arg_dest a \<noteq> None \<or> arg_list_chats a" and "config_is_file"
  shows "fst (main get_key loads config_is_file db now rest a) = [] \<and>
         (case snd (fetch_data get_key loads db (arg_password a) (arg_key a) (arg_chats a)
                      (arg_include_empty a) (arg_include_disappearing a)) of
            Inl e \<Rightarrow> snd (main get_key loads config_is_file db now rest a) = e
          | Inr r \<Rightarrow> snd (main get_key loads config_is_file db now rest a) = ValueError)"
  using assms by (auto simp: main_def unpack3_def split: sum.splits)

theorem main_fails_at_data_fetch_witness:
  "arg_dest sample_args = Some ''out'' \<and>
   \<not> isl (snd (fetch_data sample_get_key sample_loads
          \<lparr> conversation_rows = [conversation ''c1'' (Some ''Ann'') None],
            message_rows = [message (Some ''c1'') (Some ''incoming'') ''{}'' ''m1'' None] \<rparr>
          None None '''' False False)) \<and>
   main sample_get_key sample_loads True
     \<lparr> conversation_rows = [conversation ''c1'' (Some ''Ann'') None],
       message_rows = [message (Some ''c1'') (Some ''incoming'') ''{}'' ''m1'' None] \<rparr>
     sample_now sample_rest sample_args = ([], ValueError)"
proof -
  have a: "arg_dest sample_args \<noteq> None \<or> arg_list_chats sample_args"
    by (simp add: sample_args_def)
  have b: "\<not> isl (snd (fetch_data sample_get_key sample_loads
          \<lparr> conversation_rows = [conversation ''c1'' (Some ''Ann'') None],
            message_rows = [message (Some ''c1'') (Some ''incoming'') ''{}'' ''m1'' None] \<rparr>
          None None '''' False False))"
    by code_simp
  from main_fails_at_data_fetch [OF a, of True sample_get_key sample_loads
      "\<lparr> conversation_rows = [conversation ''c1'' (Some ''Ann'') None],
         message_rows = [message (Some ''c1'') (Some ''incoming'') ''{}'' ''m1'' None] \<rparr>"
      sample_now sample_rest] a b
  show ?thesis
    by (auto simp: sample_args_def prod_eq_iff split: sum.splits)
qed

subsection \<open>The metadata path with the empty allow-list\<close>

lemma scenario_store_fetched:
  "snd (fetch_data sample_get_key sample_loads scenario_store None None '''' False False) =
     Inr ([], scenario_contacts)"
  by code_simp

text \<open>
  Claim C5.  With the empty allow-list \<open>chats = ""\<close> (the default) and \<open>--network-only\<close>,
  on a store that holds the groups \<open>G1\<close> and \<open>G2\<close>, \<open>main\<close> exports the metadata of no
  group: \<open>fetch_data\<close> returns the pair of the conversations and the contacts, the
  unpacking into three names at line 87 raises \<open>ValueError\<close>, and line 97 is not reached,
  whatever the clock and the rest of \<open>main\<close> are.  The claim asks for the metadata of both
  groups.
\<close>

theorem network_only_main_exports_nothing:
  "snd (fetch_data sample_get_key sample_loads scenario_store (arg_password sample_args)
          (arg_key sample_args) (arg_chats sample_args) (arg_include_empty sample_args)
          (arg_include_disappearing sample_args)) = Inr ([], scenario_contacts) \<and>
   map name (all_groups_of scenario_contacts) = [Some ''G1'', Some ''G2''] \<and>
   main sample_get_key sample_loads True scenario_store now rest sample_args = ([], ValueError)"
proof -
  have f: "snd (fetch_data sample_get_key sample_loads scenario_store (arg_password sample_args)
          (arg_key sample_args) (arg_chats sample_args) (arg_include_empty sample_args)
          (arg_include_disappearing sample_args)) = Inr ([], scenario_contacts)"
    using scenario_store_fetched by (simp add: sample_args_def)
  have g: "map name (all_groups_of scenario_contacts) = [Some ''G1'', Some ''G2'']"
    by code_simp
  have "main sample_get_key sample_loads True scenario_store now rest sample_args = ([], ValueError)"
    unfolding main_def f by (simp add: unpack3_def sample_args_def)
  with f g show ?thesis by simp
qed

theorem network_only_main_exports_nothing_witness:
  "map name (all_groups_of scenario_contacts) = [Some ''G1'', Some ''G2''] \<and>
   main sample_get_key sample_loads True scenario_store sample_now sample_rest sample_args =
     ([], ValueError)"
  using network_only_main_exports_nothing [of sample_now sample_rest] by simp

text \<open>
  Lines 96 to 98 taken on their own would not export the two groups either:
  \<open>"".split(",")\<close> is \<open>[""]\<close>, not \<open>None\<close>, so both groups fail the test on
  \<open>include_chats\<close>, whatever the owner is.
\<close>

lemma split_of_empty_chats_skips_every_group:
  "network_only_export (Some ''out'') scenario_contacts owner '''' now = ([], Exit 0)"
  by (simp add: network_only_export_def export_channel_metadata_def export_group_def
      restricted_out_def opt_in_def scenario_contacts_def owner_O_def person_def group_def)

end
